theory Spec2Isabelle
  imports Main "HOL-Library.AList"
begin

section \<open>Python values, errors and the runtime's coercions\<close>

text \<open>
  The configuration is the result of loading a YAML document: nested dictionaries with
  string keys whose leaves are scalars or lists. A dictionary is an association list in
  insertion order, as Python's \<open>dict\<close> is; a lookup takes the first entry of a key.
  The type \<open>'f\<close> is the type of floating-point numbers, which is left open.
\<close>

datatype 'f pyval =
    PNone
  | PBool bool
  | PInt int
  | PFloat 'f
  | PStr string
  | PList "'f pyval list"
  | PDict "(string \<times> 'f pyval) list"

type_synonym 'f pydict = "(string \<times> 'f pyval) list"

text \<open>
  Exceptions are values. \<open>MissingConfigException\<close> and \<open>ValueError\<close> are raised by the
  source with a message; \<open>TypeError\<close> and \<open>AttributeError\<close> are raised by the interpreter
  when an operation meets a value of the wrong type; \<open>PyException\<close> is the base class
  \<open>Exception\<close> raised with a message. \<open>OtherError cs m\<close> is an exception of any other
  class, raised by a library: \<open>cs\<close> lists the names of the class and of all its base
  classes, and \<open>m\<close> is what \<open>str\<close> returns for it.
\<close>

datatype error =
    MissingConfigException string
  | ValueError string
  | TypeError
  | AttributeError
  | PyException string
  | OtherError "string list" string

text \<open>
  The conversions of the Python runtime that depend on floating point, on the grammar of
  numeric literals or on \<open>repr\<close> are parameters of the model.
\<close>

record 'f runtime =
  int_of_str :: "string \<Rightarrow> error + int"
  int_of_float :: "'f \<Rightarrow> error + int"
  float_of_int :: "int \<Rightarrow> error + 'f"
  float_of_str :: "string \<Rightarrow> error + 'f"
  str_of_float :: "'f \<Rightarrow> string"
  str_of_container :: "'f pyval \<Rightarrow> string"

fun digits_of_nat :: "nat \<Rightarrow> string" where
  "digits_of_nat n =
     (if n < 10 then [''0123456789'' ! n]
      else digits_of_nat (n div 10) @ [''0123456789'' ! (n mod 10)])"

definition str_of_int :: "int \<Rightarrow> string" where
  "str_of_int i = (if i < 0 then CHR ''-'' # digits_of_nat (nat (- i)) else digits_of_nat (nat i))"

text \<open>\<open>int(v)\<close>, \<open>float(v)\<close> and \<open>str(v)\<close>.\<close>

fun py_int :: "'f runtime \<Rightarrow> 'f pyval \<Rightarrow> error + int" where
  "py_int rt (PInt i) = Inr i"
| "py_int rt (PBool b) = Inr (if b then 1 else 0)"
| "py_int rt (PFloat f) = int_of_float rt f"
| "py_int rt (PStr s) = int_of_str rt s"
| "py_int rt PNone = Inl TypeError"
| "py_int rt (PList xs) = Inl TypeError"
| "py_int rt (PDict d) = Inl TypeError"

fun py_float :: "'f runtime \<Rightarrow> 'f pyval \<Rightarrow> error + 'f" where
  "py_float rt (PFloat f) = Inr f"
| "py_float rt (PInt i) = float_of_int rt i"
| "py_float rt (PBool b) = float_of_int rt (if b then 1 else 0)"
| "py_float rt (PStr s) = float_of_str rt s"
| "py_float rt PNone = Inl TypeError"
| "py_float rt (PList xs) = Inl TypeError"
| "py_float rt (PDict d) = Inl TypeError"

fun py_str :: "'f runtime \<Rightarrow> 'f pyval \<Rightarrow> string" where
  "py_str rt (PStr s) = s"
| "py_str rt PNone = ''None''"
| "py_str rt (PBool b) = (if b then ''True'' else ''False'')"
| "py_str rt (PInt i) = str_of_int i"
| "py_str rt (PFloat f) = str_of_float rt f"
| "py_str rt (PList xs) = str_of_container rt (PList xs)"
| "py_str rt (PDict d) = str_of_container rt (PDict d)"

text \<open>
  \<open>{**a, **b}\<close>: the entries of \<open>a\<close>, then each entry of \<open>b\<close> stored in turn; a key
  already there keeps its position and takes the new value, a new key goes to the end.
  Unpacking a value that is not a mapping raises \<open>TypeError\<close>.
\<close>

definition dict_merge :: "'f pydict \<Rightarrow> 'f pydict \<Rightarrow> 'f pydict" where
  "dict_merge a b = fold (\<lambda>(k, v). AList.update k v) b a"

fun unpack_merge :: "'f pyval \<Rightarrow> 'f pyval \<Rightarrow> error + 'f pydict" where
  "unpack_merge (PDict a) (PDict b) = Inr (dict_merge a b)"
| "unpack_merge _ _ = Inl TypeError"

section \<open>config.py\<close>

subsection \<open>class Config\<close>

text \<open>
  A \<open>Config\<close> object holds \<open>_raw\<close> and nothing else, so it is modelled by that value.
  The constructor accepts any value; \<open>_raw.get\<close> and \<open>_raw.keys\<close> raise
  \<open>AttributeError\<close> on a value that is not a dictionary.
\<close>

fun get_or_default :: "'f pyval \<Rightarrow> string \<Rightarrow> 'f pyval \<Rightarrow> error + 'f pyval" where
  "get_or_default (PDict d) prop dflt =
     Inr (case map_of d prop of Some v \<Rightarrow> v | None \<Rightarrow> dflt)"
| "get_or_default _ prop dflt = Inl AttributeError"

definition missing_message :: "string \<Rightarrow> string \<Rightarrow> string" where
  "missing_message prefix prop =
     ''Missing required configuration: '' @ [CHR 0x27] @ prefix @ prop @ [CHR 0x27] @ ''.''"

fun get_or_fail :: "string \<Rightarrow> 'f pyval \<Rightarrow> string \<Rightarrow> error + 'f pyval" where
  "get_or_fail prefix (PDict d) prop =
     (case map_of d prop of
        Some v \<Rightarrow> Inr v
      | None \<Rightarrow> Inl (MissingConfigException (missing_message prefix prop)))"
| "get_or_fail prefix _ prop = Inl AttributeError"

text \<open>\<open>_get_prefix\<close> of each class.\<close>

definition Config_get_prefix :: string where
  "Config_get_prefix = ''''"

definition VolumeConfig_get_prefix :: string where
  "VolumeConfig_get_prefix = ''run_config.volume.''"

definition RunConfig_get_prefix :: string where
  "RunConfig_get_prefix = ''run_config.''"

subsection \<open>class NodeResources\<close>

definition NodeResources_get_for :: "'f pyval \<Rightarrow> string \<Rightarrow> error + 'f pydict" where
  "NodeResources_get_for raw node_name =
     (case get_or_default raw ''__default__'' (PDict []) of
        Inl e \<Rightarrow> Inl e
      | Inr defaults \<Rightarrow>
          (case get_or_default raw node_name (PDict []) of
             Inl e \<Rightarrow> Inl e
           | Inr node_specific \<Rightarrow> unpack_merge defaults node_specific))"

definition NodeResources_is_set_for :: "'f pyval \<Rightarrow> string \<Rightarrow> error + bool" where
  "NodeResources_is_set_for raw node_name =
     (case NodeResources_get_for raw node_name of
        Inl e \<Rightarrow> Inl e
      | Inr r \<Rightarrow> Inr (r \<noteq> []))"

subsection \<open>class RetryPolicy\<close>

text \<open>
  The three assignments of \<open>RetryPolicy.get_for\<close>, in the order of the source; each may
  raise when the stored value cannot be converted.
\<close>

definition set_num_retries :: "'f runtime \<Rightarrow> 'f pydict \<Rightarrow> error + 'f pydict" where
  "set_num_retries rt vals =
     (case py_int rt (case map_of vals ''num_retries'' of Some v \<Rightarrow> v | None \<Rightarrow> PInt 0) of
        Inl e \<Rightarrow> Inl e
      | Inr n \<Rightarrow> Inr (AList.update ''num_retries'' (PInt n) vals))"

definition set_backoff_factor :: "'f runtime \<Rightarrow> 'f pydict \<Rightarrow> error + 'f pydict" where
  "set_backoff_factor rt vals =
     (case map_of vals ''backoff_factor'' of
        Some v \<Rightarrow>
          (case py_float rt v of
             Inl e \<Rightarrow> Inl e
           | Inr f \<Rightarrow> Inr (AList.update ''backoff_factor'' (PFloat f) vals))
      | None \<Rightarrow> Inr (AList.update ''backoff_factor'' PNone vals))"

definition set_backoff_duration :: "'f runtime \<Rightarrow> 'f pydict \<Rightarrow> 'f pydict" where
  "set_backoff_duration rt vals =
     (case map_of vals ''backoff_duration'' of
        Some v \<Rightarrow> AList.update ''backoff_duration'' (PStr (py_str rt v)) vals
      | None \<Rightarrow> AList.update ''backoff_duration'' PNone vals)"

definition normalize_retry :: "'f runtime \<Rightarrow> 'f pydict \<Rightarrow> error + 'f pydict" where
  "normalize_retry rt vals =
     (if vals = [] then Inr []
      else
        (case set_num_retries rt vals of
           Inl e \<Rightarrow> Inl e
         | Inr vals1 \<Rightarrow>
             (case set_backoff_factor rt vals1 of
                Inl e \<Rightarrow> Inl e
              | Inr vals2 \<Rightarrow> Inr (set_backoff_duration rt vals2))))"

definition RetryPolicy_get_for :: "'f runtime \<Rightarrow> 'f pyval \<Rightarrow> string \<Rightarrow> error + 'f pydict" where
  "RetryPolicy_get_for rt raw node_name =
     (case get_or_default raw ''__default__'' (PDict []) of
        Inl e \<Rightarrow> Inl e
      | Inr defaults \<Rightarrow>
          (case get_or_default raw node_name (PDict []) of
             Inl e \<Rightarrow> Inl e
           | Inr node_specific \<Rightarrow>
               (case unpack_merge defaults node_specific of
                  Inl e \<Rightarrow> Inl e
                | Inr vals \<Rightarrow> normalize_retry rt vals)))"

definition RetryPolicy_is_set_for :: "'f runtime \<Rightarrow> 'f pyval \<Rightarrow> string \<Rightarrow> error + bool" where
  "RetryPolicy_is_set_for rt raw node_name =
     (case RetryPolicy_get_for rt raw node_name of
        Inl e \<Rightarrow> Inl e
      | Inr r \<Rightarrow> Inr (r \<noteq> []))"

subsection \<open>class RunConfig\<close>

text \<open>The properties of \<open>RunConfig\<close>, each applied to the object's \<open>_raw\<close>.\<close>

definition RunConfig_image :: "'f pyval \<Rightarrow> error + 'f pyval" where
  "RunConfig_image raw = get_or_fail RunConfig_get_prefix raw ''image''"

definition RunConfig_root :: "'f pyval \<Rightarrow> error + 'f pyval" where
  "RunConfig_root raw = get_or_fail RunConfig_get_prefix raw ''root''"

definition RunConfig_experiment_name :: "'f pyval \<Rightarrow> error + 'f pyval" where
  "RunConfig_experiment_name raw = get_or_fail RunConfig_get_prefix raw ''experiment_name''"

definition RunConfig_run_name :: "'f pyval \<Rightarrow> error + 'f pyval" where
  "RunConfig_run_name raw = get_or_fail RunConfig_get_prefix raw ''run_name''"

text \<open>
  Python evaluates the arguments of a call before the call: the default,
  \<open>self._get_or_fail("run_name")\<close>, is computed first, whether it is needed or not.
\<close>

definition RunConfig_scheduled_run_name :: "'f pyval \<Rightarrow> error + 'f pyval" where
  "RunConfig_scheduled_run_name raw =
     (case get_or_fail RunConfig_get_prefix raw ''run_name'' of
        Inl e \<Rightarrow> Inl e
      | Inr run_name \<Rightarrow> get_or_default raw ''scheduled_run_name'' run_name)"

definition RunConfig_description :: "'f pyval \<Rightarrow> error + 'f pyval" where
  "RunConfig_description raw = get_or_default raw ''description'' PNone"

text \<open>\<open>resources\<close> and \<open>retry_policy\<close> wrap the stored block in a new object.\<close>

definition RunConfig_resources :: "'f pyval \<Rightarrow> error + 'f pyval" where
  "RunConfig_resources raw = get_or_default raw ''resources'' (PDict [])"

definition RunConfig_retry_policy :: "'f pyval \<Rightarrow> error + 'f pyval" where
  "RunConfig_retry_policy raw = get_or_default raw ''retry_policy'' (PDict [])"

definition RunConfig_max_cache_staleness :: "'f runtime \<Rightarrow> 'f pyval \<Rightarrow> error + string" where
  "RunConfig_max_cache_staleness rt raw =
     (case get_or_default raw ''max_cache_staleness'' PNone of
        Inl e \<Rightarrow> Inl e
      | Inr v \<Rightarrow> Inr (py_str rt v))"

definition RunConfig_node_merge_strategy :: "'f runtime \<Rightarrow> 'f pyval \<Rightarrow> error + string" where
  "RunConfig_node_merge_strategy rt raw =
     (case get_or_default raw ''node_merge_strategy'' (PStr ''none'') of
        Inl e \<Rightarrow> Inl e
      | Inr v \<Rightarrow>
          (let strategy = py_str rt v in
           if strategy \<notin> set [''none'', ''full'']
           then Inl (ValueError
                  (''Invalid '' @ RunConfig_get_prefix @ ''node_merge_strategy: '' @ strategy))
           else Inr strategy))"

subsection \<open>class PluginConfig\<close>

text \<open>\<open>PluginConfig\<close> inherits \<open>_get_prefix\<close> from \<open>Config\<close>.\<close>

definition PluginConfig_host :: "'f pyval \<Rightarrow> error + 'f pyval" where
  "PluginConfig_host raw = get_or_fail Config_get_prefix raw ''host''"

definition PluginConfig_run_config :: "'f pyval \<Rightarrow> error + 'f pyval" where
  "PluginConfig_run_config raw = get_or_fail Config_get_prefix raw ''run_config''"

definition PluginConfig_project_id :: "'f pyval \<Rightarrow> error + 'f pyval" where
  "PluginConfig_project_id raw = get_or_fail Config_get_prefix raw ''project_id''"

definition PluginConfig_region :: "'f pyval \<Rightarrow> error + 'f pyval" where
  "PluginConfig_region raw = get_or_fail Config_get_prefix raw ''region''"

section \<open>kfpclient.py\<close>

subsection \<open>KubeflowClient.__init__\<close>

text \<open>
  The two generator classes are represented by their names, and the \<open>kfp\<close> client by the
  parameters it is constructed with: neither class is among the source files. What the
  authentication handler finds (an identity token, a session cookie for the host) is given
  to the model.
\<close>

datatype generator = PodPerNodePipelineGenerator | OnePodPipelineGenerator

datatype client_params = NoParams | ExistingToken string | Cookies string

record 'f auth_handler =
  obtain_id_token :: "string option"
  obtain_dex_authservice_session :: "'f pyval \<Rightarrow> string option"

record 'f kubeflow_client =
  host :: "'f pyval"
  client_params :: client_params
  project_name :: string
  pipeline_description :: "'f pyval"
  generator :: generator

text \<open>\<open>config.run_config.node_merge_strategy\<close>, evaluated anew at each place it is written.\<close>

definition config_node_merge_strategy :: "'f runtime \<Rightarrow> 'f pyval \<Rightarrow> error + string" where
  "config_node_merge_strategy rt config =
     (case PluginConfig_run_config config of
        Inl e \<Rightarrow> Inl e
      | Inr run_config \<Rightarrow> RunConfig_node_merge_strategy rt run_config)"

definition select_generator :: "'f runtime \<Rightarrow> 'f pyval \<Rightarrow> error + generator" where
  "select_generator rt config =
     (case config_node_merge_strategy rt config of
        Inl e \<Rightarrow> Inl e
      | Inr s1 \<Rightarrow>
          if s1 = ''none'' then Inr PodPerNodePipelineGenerator
          else
            (case config_node_merge_strategy rt config of
               Inl e \<Rightarrow> Inl e
             | Inr s2 \<Rightarrow>
                 if s2 = ''full'' then Inr OnePodPipelineGenerator
                 else
                   (case config_node_merge_strategy rt config of
                      Inl e \<Rightarrow> Inl e
                    | Inr s3 \<Rightarrow>
                        Inl (PyException (''Invalid `node_merge_strategy`: '' @ s3)))))"

definition KubeflowClient_init ::
  "'f runtime \<Rightarrow> 'f auth_handler \<Rightarrow> 'f pyval \<Rightarrow> string \<Rightarrow> error + 'f kubeflow_client" where
  "KubeflowClient_init rt auth config project =
     (let params0 = (case obtain_id_token auth of
                       None \<Rightarrow> NoParams
                     | Some token \<Rightarrow> ExistingToken token)
      in case PluginConfig_host config of
           Inl e \<Rightarrow> Inl e
         | Inr kfp_api \<Rightarrow>
             (let params = (case obtain_dex_authservice_session auth kfp_api of
                              None \<Rightarrow> params0
                            | Some session \<Rightarrow> Cookies (''authservice_session='' @ session))
              in case PluginConfig_host config of
                   Inl e \<Rightarrow> Inl e
                 | Inr h \<Rightarrow>
                     (case PluginConfig_run_config config of
                        Inl e \<Rightarrow> Inl e
                      | Inr run_config \<Rightarrow>
                          (case RunConfig_description run_config of
                             Inl e \<Rightarrow> Inl e
                           | Inr descr \<Rightarrow>
                               (case select_generator rt config of
                                  Inl e \<Rightarrow> Inl e
                                | Inr g \<Rightarrow>
                                    Inr \<lparr>host = h, client_params = params,
                                         project_name = project,
                                         pipeline_description = descr,
                                         generator = g\<rparr>)))))"

subsection \<open>KubeflowClient._ensure_experiment_exists\<close>

text \<open>
  The Kubeflow Pipelines service is a state \<open>'w\<close> with two operations, each of which
  returns an experiment or raises. The client's state is the service, the calls made to it
  and the lines written to the log.
\<close>

record kfp_experiment =
  experiment_id :: string
  experiment_name :: string

datatype api_call =
    GetExperiment string "string option"
  | CreateExperiment string "string option"

record 'w kfp_api =
  get_experiment :: "'w \<Rightarrow> string \<Rightarrow> string option \<Rightarrow> (error + kfp_experiment) \<times> 'w"
  create_experiment :: "'w \<Rightarrow> string \<Rightarrow> string option \<Rightarrow> (error + kfp_experiment) \<times> 'w"

record 'w client_state =
  service :: 'w
  calls :: "api_call list"
  log :: "string list"

definition startswith :: "string \<Rightarrow> string \<Rightarrow> bool" where
  "startswith s p = (take (length p) s = p)"

text \<open>
  \<open>except ValueError as e\<close> catches an instance of \<open>ValueError\<close> or of one of its
  subclasses, such as \<open>UnicodeError\<close>; the result is \<open>str(e)\<close> of a caught exception.
  None of the other classes of the model derives from \<open>ValueError\<close>.
\<close>

fun caught_ValueError :: "error \<Rightarrow> string option" where
  "caught_ValueError (ValueError msg) = Some msg"
| "caught_ValueError (OtherError cs msg) = (if ''ValueError'' \<in> set cs then Some msg else None)"
| "caught_ValueError _ = None"

definition ensure_experiment_exists ::
  "'w kfp_api \<Rightarrow> string \<Rightarrow> string option \<Rightarrow> 'w client_state
     \<Rightarrow> (error + string) \<times> 'w client_state" where
  "ensure_experiment_exists api name namespace st =
     (case get_experiment api (service st) name namespace of (r, w1) \<Rightarrow>
        (let st1 = st\<lparr>service := w1, calls := calls st @ [GetExperiment name namespace]\<rparr>
         in case r of
              Inr exp \<Rightarrow>
                (Inr (experiment_id exp),
                 st1\<lparr>log := log st1 @ [''Existing experiment found: '' @ experiment_id exp]\<rparr>)
            | Inl e \<Rightarrow>
                (case caught_ValueError e of
                   None \<Rightarrow> (Inl e, st1)
                 | Some msg \<Rightarrow>
                     if \<not> startswith msg ''No experiment is found''
                     then (Inl e, st1)
                     else
                       (case create_experiment api (service st1) name namespace of
                          (r2, w2) \<Rightarrow>
                            (let st2 = st1\<lparr>service := w2,
                                          calls := calls st1
                                            @ [CreateExperiment name namespace]\<rparr>
                             in case r2 of
                                  Inr exp \<Rightarrow>
                                    (Inr (experiment_id exp),
                                     st2\<lparr>log := log st2
                                        @ [''New experiment created: '' @ experiment_id exp]\<rparr>)
                                | Inl e2 \<Rightarrow> (Inl e2, st2))))))"

section \<open>The retry step of the generators\<close>

text \<open>
  Modelled from the spec: the retry spec of an executable unit (section 3, "retry spec
  (optional)"). The generators are not among the source files. The spec holds the resolved
  retry mapping as it is given and the retry trigger.
\<close>

record 'f retry_spec =
  retry_fields :: "'f pydict"
  retry_on :: string

text \<open>
  Modelled from the spec: the executable unit (section 3), of which the name and the
  optional retry spec are kept.
\<close>

record 'f executable_unit =
  unit_name :: string
  unit_retry :: "'f retry_spec option"

text \<open>
  Modelled from the spec: the retry trigger (section 4.2: "a fixed retry-trigger condition
  of "on failure" is applied uniformly (not configurable per node in this core)").
\<close>

definition fixed_trigger :: string where
  "fixed_trigger = ''on failure''"

text \<open>
  Modelled from the spec: the retry step of the Node Compiler (section 4.2, "Retry"), which
  lives in \<open>kedro_kubeflow/generators\<close> and is not among the source files. "If set, attach
  the retry fields as given", with the fixed trigger; "if not set, no retry spec is
  attached". Whether the policy is set, and what it resolves to, is asked of the source's
  \<open>RetryPolicy\<close> for the unit's name.
\<close>

definition attach_retry ::
  "'f runtime \<Rightarrow> 'f pyval \<Rightarrow> 'f executable_unit \<Rightarrow> error + 'f executable_unit" where
  "attach_retry rt run_config u =
     (case RunConfig_retry_policy run_config of
        Inl e \<Rightarrow> Inl e
      | Inr retry_raw \<Rightarrow>
          (case RetryPolicy_is_set_for rt retry_raw (unit_name u) of
             Inl e \<Rightarrow> Inl e
           | Inr is_set \<Rightarrow>
               if is_set then
                 (case RetryPolicy_get_for rt retry_raw (unit_name u) of
                    Inl e \<Rightarrow> Inl e
                  | Inr r \<Rightarrow>
                      Inr (u\<lparr>unit_retry :=
                               Some \<lparr>retry_fields = r, retry_on = fixed_trigger\<rparr>\<rparr>))
               else Inr u))"

section \<open>Instances for the worked examples\<close>

text \<open>
  A stub of the service, as a mock object in a unit test: the lookup returns \<open>found\<close>, the
  creation returns \<open>created\<close>, and the state counts the creations.
\<close>

definition stub_api :: "(error + kfp_experiment) \<Rightarrow> (error + kfp_experiment) \<Rightarrow> nat kfp_api" where
  "stub_api found created =
     \<lparr>get_experiment = (\<lambda>w name namespace. (found, w)),
      create_experiment = (\<lambda>w name namespace. (created, Suc w))\<rparr>"

text \<open>
  In this instance of the runtime a float is a whole number, written as an integer: an
  integer converts to the float of the same value, a float prints with \<open>.0\<close>, and no
  string is accepted as a number. The worked examples below parse no string and print no
  float or container, so it agrees with CPython on them.
\<close>

definition exact_runtime :: "int runtime" where
  "exact_runtime =
     \<lparr>int_of_str = (\<lambda>s. Inl (ValueError s)),
      int_of_float = Inr,
      float_of_int = Inr,
      float_of_str = (\<lambda>s. Inl (ValueError s)),
      str_of_float = (\<lambda>f. str_of_int f @ ''.0''),
      str_of_container = (\<lambda>v. '''')\<rparr>"

section \<open>Merging dictionaries\<close>

lemma map_of_fold_update:
  "map_of (fold (\<lambda>(k, v). AList.update k v) b a) = map_of a ++ map_of (rev b)"
proof (induction b arbitrary: a)
  case Nil
  show ?case by simp
next
  case (Cons p b)
  obtain k v where p: "p = (k, v)" by (cases p)
  have "map_of (fold (\<lambda>(k, v). AList.update k v) (p # b) a)
        = map_of (AList.update k v a) ++ map_of (rev b)"
    using Cons.IH [of "AList.update k v a"] by (simp add: p)
  also have "\<dots> = map_of a ++ map_of (rev (p # b))"
    by (simp add: p update_conv' map_add_def fun_eq_iff split: option.split)
  finally show ?case .
qed

lemma map_of_rev_distinct:
  assumes "distinct (map fst b)"
  shows "map_of (rev b) = map_of b"
proof -
  have "distinct (map fst (rev b))"
    using assms by (simp add: rev_map [symmetric])
  then show ?thesis
    using assms by (simp add: map_of_inject_set)
qed

lemma map_of_dict_merge:
  "distinct (map fst b) \<Longrightarrow> map_of (dict_merge a b) = map_of a ++ map_of b"
  by (simp add: dict_merge_def map_of_fold_update map_of_rev_distinct)

lemma distinct_fold_update:
  "distinct (map fst a) \<Longrightarrow> distinct (map fst (fold (\<lambda>(k, v). AList.update k v) b a))"
  by (induction b arbitrary: a) (simp_all add: distinct_update split_beta)

lemma distinct_dict_merge:
  "distinct (map fst a) \<Longrightarrow> distinct (map fst (dict_merge a b))"
  by (simp add: dict_merge_def distinct_fold_update)

lemma fold_update_self:
  "distinct (map fst a) \<Longrightarrow> set b \<subseteq> set a \<Longrightarrow> fold (\<lambda>(k, v). AList.update k v) b a = a"
  by (induction b) (simp_all add: update_triv split_beta)

lemma dict_merge_idem: "distinct (map fst a) \<Longrightarrow> dict_merge a a = a"
  by (simp add: dict_merge_def fold_update_self)

section \<open>Policy resolution\<close>

lemma NodeResources_get_for_merge:
  assumes "get_or_default (PDict blk) ''__default__'' (PDict []) = Inr (PDict a)"
      and "get_or_default (PDict blk) node (PDict []) = Inr (PDict b)"
  shows "NodeResources_get_for (PDict blk) node = Inr (dict_merge a b)"
  using assms by (simp add: NodeResources_get_for_def)

lemma RetryPolicy_get_for_merge:
  assumes "get_or_default (PDict blk) ''__default__'' (PDict []) = Inr (PDict a)"
      and "get_or_default (PDict blk) node (PDict []) = Inr (PDict b)"
  shows "RetryPolicy_get_for rt (PDict blk) node = normalize_retry rt (dict_merge a b)"
  using assms by (simp add: RetryPolicy_get_for_def)

lemma NodeResources_get_for_resolved:
  assumes "distinct (map fst r)"
  shows "NodeResources_get_for (PDict [(''__default__'', PDict r), (node, PDict r)]) node = Inr r"
  using assms by (simp add: NodeResources_get_for_def dict_merge_idem)

lemma normalize_retry_Nil: "normalize_retry rt [] = Inr []"
  by (simp add: normalize_retry_def)

lemma normalize_retry_Inl:
  assumes "normalize_retry rt m = Inl e"
  shows "(\<exists>v. map_of m ''num_retries'' = Some v \<and> py_int rt v = Inl e)
       \<or> (\<exists>v. map_of m ''backoff_factor'' = Some v \<and> py_float rt v = Inl e)"
  using assms
  by (auto simp: normalize_retry_def set_num_retries_def set_backoff_factor_def update_conv'
      split: if_splits sum.splits option.splits)

lemma normalize_retry_Inr:
  assumes "m \<noteq> []"
      and "py_int rt (case map_of m ''num_retries'' of Some v \<Rightarrow> v | None \<Rightarrow> PInt 0) = Inr n"
      and "\<forall>v. map_of m ''backoff_factor'' = Some v \<longrightarrow> py_float rt v = Inr f"
  shows "\<exists>r. normalize_retry rt m = Inr r
           \<and> map_of r = (map_of m)
               (''num_retries'' \<mapsto> PInt n,
                ''backoff_factor'' \<mapsto>
                   (case map_of m ''backoff_factor'' of Some v \<Rightarrow> PFloat f | None \<Rightarrow> PNone),
                ''backoff_duration'' \<mapsto>
                   (case map_of m ''backoff_duration'' of
                      Some v \<Rightarrow> PStr (py_str rt v) | None \<Rightarrow> PNone))"
  using assms
  by (auto simp: normalize_retry_def set_num_retries_def set_backoff_factor_def
      set_backoff_duration_def update_conv' split: option.splits)

lemma normalize_retry_nonempty:
  assumes "normalize_retry rt m = Inr r"
  shows "(r \<noteq> []) = (m \<noteq> [])"
  using assms
  by (auto simp: normalize_retry_def set_backoff_duration_def
      split: if_splits sum.splits option.splits)

lemma normalize_retry_returns:
  assumes "\<forall>v. map_of m ''num_retries'' = Some v \<longrightarrow> \<not> isl (py_int rt v)"
      and "\<forall>v. map_of m ''backoff_factor'' = Some v \<longrightarrow> \<not> isl (py_float rt v)"
  shows "\<exists>r. normalize_retry rt m = Inr r"
proof (cases "normalize_retry rt m")
  case (Inl e)
  from normalize_retry_Inl [OF this] assms show ?thesis by auto
next
  case (Inr r)
  then show ?thesis by blast
qed

lemma RetryPolicy_is_set_for_merge:
  assumes "get_or_default (PDict blk) ''__default__'' (PDict []) = Inr (PDict a)"
      and "get_or_default (PDict blk) node (PDict []) = Inr (PDict b)"
  shows "RetryPolicy_is_set_for rt (PDict blk) node =
           (case normalize_retry rt (dict_merge a b) of
              Inl e \<Rightarrow> Inl e
            | Inr r \<Rightarrow> Inr (dict_merge a b \<noteq> []))"
  using RetryPolicy_get_for_merge [OF assms, of rt]
  by (simp add: RetryPolicy_is_set_for_def normalize_retry_nonempty split: sum.splits)

text \<open>
  Claim C1, as stated, fails on retry blocks. \<open>RetryPolicy.get_for\<close> on the block
  \<open>{"__default__": {"num_retries": 4}}\<close> returns the merge with two more keys,
  \<open>backoff_factor\<close> and \<open>backoff_duration\<close>, both \<open>None\<close>, which is not the shallow
  merge \<open>{"num_retries": 4}\<close>. Resolving that result again, as both the default and
  the node's entry, raises \<open>TypeError\<close> (\<open>float(None)\<close>) instead of yielding it.
\<close>

theorem C1_counterexample:
  "RetryPolicy_get_for exact_runtime
       (PDict [(''__default__'', PDict [(''num_retries'', PInt 4)])]) ''node1''
     = Inr [(''num_retries'', PInt 4), (''backoff_factor'', PNone), (''backoff_duration'', PNone)]
   \<and> RetryPolicy_get_for exact_runtime
       (PDict [(''__default__'', PDict [(''num_retries'', PInt 4)])]) ''node1''
     \<noteq> Inr (dict_merge [(''num_retries'', PInt 4)] [])
   \<and> RetryPolicy_get_for exact_runtime
       (PDict [(''__default__'',
                 PDict [(''num_retries'', PInt 4), (''backoff_factor'', PNone),
                        (''backoff_duration'', PNone)]),
               (''node1'',
                 PDict [(''num_retries'', PInt 4), (''backoff_factor'', PNone),
                        (''backoff_duration'', PNone)])]) ''node1''
     = Inl TypeError"
  by (simp add: RetryPolicy_get_for_def normalize_retry_def set_num_retries_def
      set_backoff_factor_def set_backoff_duration_def dict_merge_def)

text \<open>
  Claim C1, amended. Let the \<open>__default__\<close> entry of a block be the mapping \<open>a\<close> and the
  entry of the node be the mapping \<open>b\<close>, an absent entry counting as the empty mapping.
  \<^item> \<open>NodeResources.get_for\<close> returns the shallow merge of \<open>a\<close> and \<open>b\<close>, in which the
    node's value wins for each key; for a node that is not listed this is \<open>a\<close>.
  \<^item> The merge is idempotent: \<open>NodeResources.get_for\<close> on a block whose default and node
    entry are both the resolved mapping returns that mapping.
  \<^item> \<open>RetryPolicy.get_for\<close> computes the same merge and returns its normalization, not
    the merge itself.
  The block of the specification's example is the witness that follows.
\<close>

theorem C1_default_then_override:
  assumes "get_or_default (PDict blk) ''__default__'' (PDict []) = Inr (PDict a)"
      and "get_or_default (PDict blk) node (PDict []) = Inr (PDict b)"
      and "distinct (map fst a)"
      and "distinct (map fst b)"
  shows "NodeResources_get_for (PDict blk) node = Inr (dict_merge a b)
       \<and> map_of (dict_merge a b) = map_of a ++ map_of b
       \<and> (map_of blk node = None \<longrightarrow> NodeResources_get_for (PDict blk) node = Inr a)
       \<and> NodeResources_get_for
            (PDict [(''__default__'', PDict (dict_merge a b)), (node, PDict (dict_merge a b))]) node
           = Inr (dict_merge a b)
       \<and> RetryPolicy_get_for rt (PDict blk) node = normalize_retry rt (dict_merge a b)"
proof -
  have merged: "NodeResources_get_for (PDict blk) node = Inr (dict_merge a b)"
    using assms(1,2) by (rule NodeResources_get_for_merge)
  have wins: "map_of (dict_merge a b) = map_of a ++ map_of b"
    using assms(4) by (rule map_of_dict_merge)
  have unlisted: "NodeResources_get_for (PDict blk) node = Inr a" if "map_of blk node = None"
  proof -
    have "b = []" using assms(2) that by simp
    then show ?thesis using merged by (simp add: dict_merge_def)
  qed
  have "distinct (map fst (dict_merge a b))"
    using assms(3) by (rule distinct_dict_merge)
  then have idem: "NodeResources_get_for
            (PDict [(''__default__'', PDict (dict_merge a b)), (node, PDict (dict_merge a b))]) node
           = Inr (dict_merge a b)"
    by (rule NodeResources_get_for_resolved)
  have retry: "RetryPolicy_get_for rt (PDict blk) node = normalize_retry rt (dict_merge a b)"
    using assms(1,2) by (rule RetryPolicy_get_for_merge)
  from merged wins unlisted idem retry show ?thesis by blast
qed

text \<open>
  The example of claim C1: with \<open>__default__ = {cpu: 100m, memory: 8Gi}\<close> and
  \<open>node1 = {cpu: 400m, memory: 64Gi}\<close>, \<open>node1\<close> resolves to its own entry and the
  unlisted \<open>node2\<close> to the default.
\<close>

theorem C1_default_then_override_witness:
  "NodeResources_get_for
      (PDict [(''__default__'', PDict [(''cpu'', PStr ''100m''), (''memory'', PStr ''8Gi'')]),
              (''node1'', PDict [(''cpu'', PStr ''400m''), (''memory'', PStr ''64Gi'')])]) ''node1''
     = Inr [(''cpu'', PStr ''400m''), (''memory'', PStr ''64Gi'') :: string \<times> int pyval]
   \<and> NodeResources_get_for
      (PDict [(''__default__'', PDict [(''cpu'', PStr ''100m''), (''memory'', PStr ''8Gi'')]),
              (''node1'', PDict [(''cpu'', PStr ''400m''), (''memory'', PStr ''64Gi'')])]) ''node2''
     = Inr [(''cpu'', PStr ''100m''), (''memory'', PStr ''8Gi'') :: string \<times> int pyval]"
  using
    C1_default_then_override [of
      "[(''__default__'', PDict [(''cpu'', PStr ''100m''), (''memory'', PStr ''8Gi'')]),
        (''node1'', PDict [(''cpu'', PStr ''400m''), (''memory'', PStr ''64Gi'')])]"
      "[(''cpu'', PStr ''100m''), (''memory'', PStr ''8Gi'')]" "''node1''"
      "[(''cpu'', PStr ''400m''), (''memory'', PStr ''64Gi'')]" exact_runtime]
    C1_default_then_override [of
      "[(''__default__'', PDict [(''cpu'', PStr ''100m''), (''memory'', PStr ''8Gi'')]),
        (''node1'', PDict [(''cpu'', PStr ''400m''), (''memory'', PStr ''64Gi'')])]"
      "[(''cpu'', PStr ''100m''), (''memory'', PStr ''8Gi'')]" "''node2''"
      "[]" exact_runtime]
  by (simp add: dict_merge_def)

text \<open>
  Claim C2. For a block whose \<open>__default__\<close> entry is the mapping \<open>a\<close> and whose entry for
  the node is the mapping \<open>b\<close> (absent entries counting as empty):
  \<^item> \<open>NodeResources.is_set_for\<close> returns whether the merge of \<open>a\<close> and \<open>b\<close> is non-empty;
  \<^item> \<open>RetryPolicy.is_set_for\<close> returns the same truth value whenever the normalization of
    the merge returns, and it returns whenever the stored \<open>num_retries\<close> and
    \<open>backoff_factor\<close>, if present, convert to a number;
  \<^item> when the block has neither a \<open>__default__\<close> entry nor an entry for the node, both
    return \<open>False\<close>.
\<close>

theorem C2_is_set_for_iff_nonempty_merge:
  assumes "get_or_default (PDict blk) ''__default__'' (PDict []) = Inr (PDict a)"
      and "get_or_default (PDict blk) node (PDict []) = Inr (PDict b)"
  shows "NodeResources_is_set_for (PDict blk) node = Inr (dict_merge a b \<noteq> [])
       \<and> RetryPolicy_is_set_for rt (PDict blk) node =
           (case normalize_retry rt (dict_merge a b) of
              Inl e \<Rightarrow> Inl e
            | Inr r \<Rightarrow> Inr (dict_merge a b \<noteq> []))
       \<and> ((\<forall>v. map_of (dict_merge a b) ''num_retries'' = Some v \<longrightarrow> \<not> isl (py_int rt v))
            \<and> (\<forall>v. map_of (dict_merge a b) ''backoff_factor'' = Some v
                     \<longrightarrow> \<not> isl (py_float rt v))
          \<longrightarrow> RetryPolicy_is_set_for rt (PDict blk) node = Inr (dict_merge a b \<noteq> []))
       \<and> (map_of blk ''__default__'' = None \<and> map_of blk node = None
          \<longrightarrow> NodeResources_is_set_for (PDict blk) node = Inr False
              \<and> RetryPolicy_is_set_for rt (PDict blk) node = Inr False)"
proof -
  let ?m = "dict_merge a b"
  have res: "NodeResources_is_set_for (PDict blk) node = Inr (?m \<noteq> [])"
    using NodeResources_get_for_merge [OF assms]
    by (simp add: NodeResources_is_set_for_def)
  have retry: "RetryPolicy_is_set_for rt (PDict blk) node =
           (case normalize_retry rt ?m of Inl e \<Rightarrow> Inl e | Inr r \<Rightarrow> Inr (?m \<noteq> []))"
    using assms by (rule RetryPolicy_is_set_for_merge)
  have typed: "RetryPolicy_is_set_for rt (PDict blk) node = Inr (?m \<noteq> [])"
    if nr: "\<forall>v. map_of ?m ''num_retries'' = Some v \<longrightarrow> \<not> isl (py_int rt v)"
      and bf: "\<forall>v. map_of ?m ''backoff_factor'' = Some v \<longrightarrow> \<not> isl (py_float rt v)"
  proof -
    obtain r where "normalize_retry rt ?m = Inr r"
      using normalize_retry_returns [OF nr bf] by blast
    then show ?thesis by (simp add: retry)
  qed
  have absent: "NodeResources_is_set_for (PDict blk) node = Inr False
              \<and> RetryPolicy_is_set_for rt (PDict blk) node = Inr False"
    if "map_of blk ''__default__'' = None" and "map_of blk node = None"
  proof -
    have "a = []" and "b = []"
      using assms that by simp_all
    then have "?m = []" by (simp add: dict_merge_def)
    then show ?thesis by (simp add: res retry normalize_retry_Nil)
  qed
  from res retry typed absent show ?thesis by blast
qed

text \<open>
  Claim C2 at a resource block and a retry block with a default only, and at the empty
  block.
\<close>

theorem C2_is_set_for_iff_nonempty_merge_witness:
  "NodeResources_is_set_for
      (PDict [(''__default__'', PDict [(''cpu'', PStr ''100m'')])] :: int pyval) ''node1'' = Inr True
   \<and> RetryPolicy_is_set_for exact_runtime
      (PDict [(''__default__'', PDict [(''num_retries'', PInt 4)])]) ''node1'' = Inr True
   \<and> NodeResources_is_set_for (PDict [] :: int pyval) ''node1'' = Inr False
   \<and> RetryPolicy_is_set_for exact_runtime (PDict []) ''node1'' = Inr False"
  using
    C2_is_set_for_iff_nonempty_merge [of
      "[(''__default__'', PDict [(''cpu'', PStr ''100m'')])]"
      "[(''cpu'', PStr ''100m'')]" "''node1''" "[]" exact_runtime]
    C2_is_set_for_iff_nonempty_merge [of
      "[(''__default__'', PDict [(''num_retries'', PInt 4)])]"
      "[(''num_retries'', PInt 4)]" "''node1''" "[]" exact_runtime]
    C2_is_set_for_iff_nonempty_merge [of "[]" "[]" "''node1''" "[]" exact_runtime]
  by (simp add: dict_merge_def normalize_retry_def set_num_retries_def set_backoff_factor_def
      set_backoff_duration_def)

text \<open>
  Claim C3. Let \<open>m\<close> be the merge of the \<open>__default__\<close> entry and the node's entry of a retry
  block.
  \<^item> If \<open>m\<close> is empty, \<open>RetryPolicy.get_for\<close> returns the empty mapping.
  \<^item> If \<open>m\<close> is not empty and the conversions succeed, it returns \<open>m\<close> with
    \<open>num_retries\<close> set to \<open>int\<close> of the stored value (of \<open>0\<close> when the key is absent),
    \<open>backoff_factor\<close> set to \<open>float\<close> of the stored value and \<open>backoff_duration\<close> set
    to \<open>str\<close> of the stored value; an absent \<open>backoff_factor\<close> or \<open>backoff_duration\<close>
    reads as \<open>None\<close>, the unset value. All other keys are as in \<open>m\<close>.
  \<^item> An exception can only come from converting a \<open>num_retries\<close> or a \<open>backoff_factor\<close>
    that is present: a missing field raises nothing.
\<close>

theorem C3_retry_get_for_normalizes:
  assumes "get_or_default (PDict blk) ''__default__'' (PDict []) = Inr (PDict a)"
      and "get_or_default (PDict blk) node (PDict []) = Inr (PDict b)"
  shows "(dict_merge a b = [] \<longrightarrow> RetryPolicy_get_for rt (PDict blk) node = Inr [])
       \<and> (dict_merge a b \<noteq> []
            \<and> py_int rt (case map_of (dict_merge a b) ''num_retries'' of
                           Some v \<Rightarrow> v | None \<Rightarrow> PInt 0) = Inr n
            \<and> (\<forall>v. map_of (dict_merge a b) ''backoff_factor'' = Some v
                     \<longrightarrow> py_float rt v = Inr f)
          \<longrightarrow> (\<exists>r. RetryPolicy_get_for rt (PDict blk) node = Inr r
                 \<and> map_of r = (map_of (dict_merge a b))
                     (''num_retries'' \<mapsto> PInt n,
                      ''backoff_factor'' \<mapsto>
                         (case map_of (dict_merge a b) ''backoff_factor'' of
                            Some v \<Rightarrow> PFloat f | None \<Rightarrow> PNone),
                      ''backoff_duration'' \<mapsto>
                         (case map_of (dict_merge a b) ''backoff_duration'' of
                            Some v \<Rightarrow> PStr (py_str rt v) | None \<Rightarrow> PNone))))
       \<and> (\<forall>e. RetryPolicy_get_for rt (PDict blk) node = Inl e
              \<longrightarrow> (\<exists>v. map_of (dict_merge a b) ''num_retries'' = Some v \<and> py_int rt v = Inl e)
                \<or> (\<exists>v. map_of (dict_merge a b) ''backoff_factor'' = Some v
                        \<and> py_float rt v = Inl e))"
proof -
  let ?m = "dict_merge a b"
  have eq: "RetryPolicy_get_for rt (PDict blk) node = normalize_retry rt ?m"
    using assms by (rule RetryPolicy_get_for_merge)
  have empty: "RetryPolicy_get_for rt (PDict blk) node = Inr []" if "?m = []"
    using that by (simp add: eq normalize_retry_Nil)
  have filled: "\<exists>r. RetryPolicy_get_for rt (PDict blk) node = Inr r
                 \<and> map_of r = (map_of ?m)
                     (''num_retries'' \<mapsto> PInt n,
                      ''backoff_factor'' \<mapsto>
                         (case map_of ?m ''backoff_factor'' of
                            Some v \<Rightarrow> PFloat f | None \<Rightarrow> PNone),
                      ''backoff_duration'' \<mapsto>
                         (case map_of ?m ''backoff_duration'' of
                            Some v \<Rightarrow> PStr (py_str rt v) | None \<Rightarrow> PNone))"
    if ne: "?m \<noteq> []"
      and nr: "py_int rt (case map_of ?m ''num_retries'' of Some v \<Rightarrow> v | None \<Rightarrow> PInt 0) = Inr n"
      and bf: "\<forall>v. map_of ?m ''backoff_factor'' = Some v \<longrightarrow> py_float rt v = Inr f"
    unfolding eq using ne nr bf by (rule normalize_retry_Inr)
  have raised: "(\<exists>v. map_of ?m ''num_retries'' = Some v \<and> py_int rt v = Inl e)
                \<or> (\<exists>v. map_of ?m ''backoff_factor'' = Some v \<and> py_float rt v = Inl e)"
    if "RetryPolicy_get_for rt (PDict blk) node = Inl e" for e
    using that unfolding eq by (rule normalize_retry_Inl)
  from empty filled raised show ?thesis by blast
qed

text \<open>
  Claim C3 at the empty block, at a block that sets only \<open>backoff_duration\<close> and
  \<open>backoff_factor\<close>, and at a block without any of the three fields.
\<close>

theorem C3_retry_get_for_normalizes_witness:
  "RetryPolicy_get_for exact_runtime (PDict []) ''node1'' = Inr []
   \<and> (\<exists>r. RetryPolicy_get_for exact_runtime
          (PDict [(''__default__'', PDict [(''backoff_duration'', PInt 60)]),
                  (''node1'', PDict [(''backoff_factor'', PInt 2)])]) ''node1'' = Inr r
        \<and> map_of r =
            [''backoff_duration'' \<mapsto> PStr ''60'', ''backoff_factor'' \<mapsto> PFloat 2,
             ''num_retries'' \<mapsto> PInt 0])
   \<and> (\<exists>r. RetryPolicy_get_for exact_runtime
          (PDict [(''__default__'', PDict [(''cpu'', PStr ''100m'')])]) ''node1'' = Inr r
        \<and> map_of r =
            [''cpu'' \<mapsto> PStr ''100m'', ''num_retries'' \<mapsto> PInt 0,
             ''backoff_factor'' \<mapsto> PNone, ''backoff_duration'' \<mapsto> PNone])"
  using
    C3_retry_get_for_normalizes [of "[]" "[]" "''node1''" "[]" exact_runtime 0 0]
    C3_retry_get_for_normalizes [of
      "[(''__default__'', PDict [(''backoff_duration'', PInt 60)]),
        (''node1'', PDict [(''backoff_factor'', PInt 2)])]"
      "[(''backoff_duration'', PInt 60)]" "''node1''" "[(''backoff_factor'', PInt 2)]"
      exact_runtime 0 2]
    C3_retry_get_for_normalizes [of
      "[(''__default__'', PDict [(''cpu'', PStr ''100m'')])]"
      "[(''cpu'', PStr ''100m'')]" "''node1''" "[]" exact_runtime 0 0]
  by (simp add: dict_merge_def exact_runtime_def str_of_int_def fun_upd_twist)

section \<open>Configuration accessors\<close>

text \<open>
  Claim C4. On a configuration that is a dictionary, each required accessor (\<open>image\<close>,
  \<open>experiment_name\<close> and \<open>run_name\<close> of \<open>RunConfig\<close>; \<open>host\<close> and \<open>run_config\<close> of
  \<open>PluginConfig\<close>) returns the stored value unchanged when the key is present, and raises
  \<open>MissingConfigException\<close> when it is absent. The message names the key with the prefix
  of its class: \<open>run_config.image\<close>, \<open>run_config.experiment_name\<close>,
  \<open>run_config.run_name\<close>, \<open>host\<close>, \<open>run_config\<close>.
\<close>

theorem C4_required_fields:
  "RunConfig_image (PDict d) =
     (case map_of d ''image'' of
        Some v \<Rightarrow> Inr v
      | None \<Rightarrow> Inl (MissingConfigException
                  ''Missing required configuration: 'run_config.image'.''))
   \<and> RunConfig_experiment_name (PDict d) =
     (case map_of d ''experiment_name'' of
        Some v \<Rightarrow> Inr v
      | None \<Rightarrow> Inl (MissingConfigException
                  ''Missing required configuration: 'run_config.experiment_name'.''))
   \<and> RunConfig_run_name (PDict d) =
     (case map_of d ''run_name'' of
        Some v \<Rightarrow> Inr v
      | None \<Rightarrow> Inl (MissingConfigException
                  ''Missing required configuration: 'run_config.run_name'.''))
   \<and> PluginConfig_host (PDict d) =
     (case map_of d ''host'' of
        Some v \<Rightarrow> Inr v
      | None \<Rightarrow> Inl (MissingConfigException ''Missing required configuration: 'host'.''))
   \<and> PluginConfig_run_config (PDict d) =
     (case map_of d ''run_config'' of
        Some v \<Rightarrow> Inr v
      | None \<Rightarrow> Inl (MissingConfigException ''Missing required configuration: 'run_config'.''))"
  by (simp add: RunConfig_image_def RunConfig_experiment_name_def RunConfig_run_name_def
      PluginConfig_host_def PluginConfig_run_config_def RunConfig_get_prefix_def
      Config_get_prefix_def missing_message_def split: option.split)

text \<open>
  Claim C5. \<open>node_merge_strategy\<close> returns \<open>none\<close> when the key is absent, returns the
  configured string when it is \<open>none\<close> or \<open>full\<close>, and raises \<open>ValueError\<close> with a message
  that ends with the offending value when the configured string is any other. A value
  that is not a string is judged by its \<open>str\<close>.
\<close>

theorem C5_node_merge_strategy:
  "(map_of d ''node_merge_strategy'' = None
      \<longrightarrow> RunConfig_node_merge_strategy rt (PDict d) = Inr ''none'')
   \<and> (map_of d ''node_merge_strategy'' = Some (PStr s) \<and> (s = ''none'' \<or> s = ''full'')
      \<longrightarrow> RunConfig_node_merge_strategy rt (PDict d) = Inr s)
   \<and> (map_of d ''node_merge_strategy'' = Some (PStr s) \<and> s \<noteq> ''none'' \<and> s \<noteq> ''full''
      \<longrightarrow> RunConfig_node_merge_strategy rt (PDict d)
          = Inl (ValueError (''Invalid run_config.node_merge_strategy: '' @ s)))
   \<and> (\<forall>v. map_of d ''node_merge_strategy'' = Some v
      \<longrightarrow> RunConfig_node_merge_strategy rt (PDict d)
          = (if py_str rt v = ''none'' \<or> py_str rt v = ''full'' then Inr (py_str rt v)
             else Inl (ValueError
                    (''Invalid run_config.node_merge_strategy: '' @ py_str rt v))))"
  by (auto simp: RunConfig_node_merge_strategy_def RunConfig_get_prefix_def)

text \<open>Claim C5 at a configuration without the key, with \<open>full\<close> and with \<open>some\<close>.\<close>

theorem C5_node_merge_strategy_witness:
  "RunConfig_node_merge_strategy exact_runtime (PDict [(''image'', PStr ''img'')]) = Inr ''none''
   \<and> RunConfig_node_merge_strategy exact_runtime
        (PDict [(''node_merge_strategy'', PStr ''full'')]) = Inr ''full''
   \<and> RunConfig_node_merge_strategy exact_runtime
        (PDict [(''node_merge_strategy'', PStr ''some'')])
       = Inl (ValueError ''Invalid run_config.node_merge_strategy: some'')"
  using
    C5_node_merge_strategy [of "[(''image'', PStr ''img'')]" exact_runtime "''none''"]
    C5_node_merge_strategy [of "[(''node_merge_strategy'', PStr ''full'')]" exact_runtime "''full''"]
    C5_node_merge_strategy [of "[(''node_merge_strategy'', PStr ''some'')]" exact_runtime "''some''"]
  by simp

text \<open>
  Claim C9, as stated, fails on a configuration that has \<open>scheduled_run_name\<close> but no
  \<open>run_name\<close>: the default is computed before the lookup, so the access raises.
\<close>

theorem C9_counterexample:
  "RunConfig_scheduled_run_name (PDict [(''scheduled_run_name'', PStr ''nightly'')] :: int pyval)
     = Inl (MissingConfigException ''Missing required configuration: 'run_config.run_name'.'')"
  by (simp add: RunConfig_scheduled_run_name_def RunConfig_get_prefix_def missing_message_def)

text \<open>
  Claim C9, amended. On a configuration in which \<open>run_name\<close> is present,
  \<open>scheduled_run_name\<close> returns the configured \<open>scheduled_run_name\<close> when that key is
  present and the \<open>run_name\<close> otherwise. When \<open>run_name\<close> is absent the access raises
  \<open>MissingConfigException\<close> for \<open>run_config.run_name\<close>, whether \<open>scheduled_run_name\<close>
  is present or not.
\<close>

theorem C9_scheduled_run_name:
  "RunConfig_scheduled_run_name (PDict d) =
     (case map_of d ''run_name'' of
        None \<Rightarrow> Inl (MissingConfigException
                  ''Missing required configuration: 'run_config.run_name'.'')
      | Some run_name \<Rightarrow>
          Inr (case map_of d ''scheduled_run_name'' of Some v \<Rightarrow> v | None \<Rightarrow> run_name))"
  by (simp add: RunConfig_scheduled_run_name_def RunConfig_get_prefix_def missing_message_def
      split: option.split)

text \<open>
  Claim C10. \<open>max_cache_staleness\<close> returns \<open>str\<close> of the stored value; when the key is
  absent the value is \<open>None\<close> and the result is the string \<open>None\<close>, of four characters.
\<close>

theorem C10_max_cache_staleness:
  "RunConfig_max_cache_staleness rt (PDict d) =
     (case map_of d ''max_cache_staleness'' of
        None \<Rightarrow> Inr ''None''
      | Some v \<Rightarrow> Inr (py_str rt v))
   \<and> length ''None'' = 4"
  by (simp add: RunConfig_max_cache_staleness_def split: option.split)

section \<open>The client\<close>

lemma node_merge_strategy_valid:
  assumes "RunConfig_node_merge_strategy rt raw = Inr s"
  shows "s = ''none'' \<or> s = ''full''"
proof (cases raw)
  case (PDict d)
  with assms show ?thesis
    by (auto simp: RunConfig_node_merge_strategy_def Let_def split: if_splits)
qed (use assms in \<open>simp_all add: RunConfig_node_merge_strategy_def\<close>)

lemma config_node_merge_strategy_valid:
  assumes "config_node_merge_strategy rt config = Inr s"
  shows "s = ''none'' \<or> s = ''full''"
  using assms
  by (auto simp: config_node_merge_strategy_def split: sum.splits
      dest: node_merge_strategy_valid)

lemma config_node_merge_strategy_not_PyException:
  "config_node_merge_strategy rt config \<noteq> Inl (PyException msg)"
proof (cases config)
  case (PDict d)
  show ?thesis
  proof (cases "map_of d ''run_config''")
    case None
    with PDict show ?thesis
      by (simp add: config_node_merge_strategy_def PluginConfig_run_config_def)
  next
    case (Some rc)
    with PDict show ?thesis
      by (cases rc)
        (simp_all add: config_node_merge_strategy_def PluginConfig_run_config_def
          RunConfig_node_merge_strategy_def Let_def)
  qed
qed (simp_all add: config_node_merge_strategy_def PluginConfig_run_config_def)

lemma select_generator_eq:
  "select_generator rt config =
     (case config_node_merge_strategy rt config of
        Inl e \<Rightarrow> Inl e
      | Inr s \<Rightarrow> Inr (if s = ''none'' then PodPerNodePipelineGenerator
                      else OnePodPipelineGenerator))"
  by (auto simp: select_generator_def split: sum.splits
      dest: config_node_merge_strategy_valid)

lemma select_generator_not_PyException:
  "select_generator rt config \<noteq> Inl (PyException msg)"
  using config_node_merge_strategy_not_PyException [of rt config msg]
  by (auto simp: select_generator_eq split: sum.splits)

lemma get_or_fail_not_PyException: "get_or_fail prefix raw prop \<noteq> Inl (PyException msg)"
  by (cases raw) (simp_all split: option.splits)

lemma get_or_default_not_PyException: "get_or_default raw prop dflt \<noteq> Inl (PyException msg)"
  by (cases raw) simp_all

lemma KubeflowClient_init_not_PyException:
  "KubeflowClient_init rt auth config project \<noteq> Inl (PyException msg)"
  using select_generator_not_PyException [of rt config msg]
    get_or_fail_not_PyException [of Config_get_prefix config _ msg]
    get_or_default_not_PyException [of _ "''description''" PNone msg]
  by (auto simp: KubeflowClient_init_def Let_def PluginConfig_host_def PluginConfig_run_config_def
      RunConfig_description_def split: sum.splits)

lemma KubeflowClient_init_generator:
  assumes "KubeflowClient_init rt auth config project = Inr c"
  shows "select_generator rt config = Inr (generator c)"
  using assms
  by (auto simp: KubeflowClient_init_def Let_def split: sum.splits)

text \<open>
  Claim C6. Whenever \<open>config.run_config.node_merge_strategy\<close> returns, it returns \<open>none\<close>
  or \<open>full\<close>. The selection in the constructor maps \<open>none\<close> to
  \<open>PodPerNodePipelineGenerator\<close> and \<open>full\<close> to \<open>OnePodPipelineGenerator\<close>, and fails
  only where the accessor fails; so a client that is constructed holds the generator of its
  configured strategy, and neither the selection nor the constructor ever raises the
  \<open>Exception\<close> of the last branch.
\<close>

theorem C6_generator_selection:
  "(\<forall>s. config_node_merge_strategy rt config = Inr s \<longrightarrow> s = ''none'' \<or> s = ''full'')
   \<and> select_generator rt config =
       (case config_node_merge_strategy rt config of
          Inl e \<Rightarrow> Inl e
        | Inr s \<Rightarrow> Inr (if s = ''none'' then PodPerNodePipelineGenerator
                        else OnePodPipelineGenerator))
   \<and> (\<forall>c. KubeflowClient_init rt auth config project = Inr c
          \<longrightarrow> (config_node_merge_strategy rt config = Inr ''none''
                 \<and> generator c = PodPerNodePipelineGenerator)
              \<or> (config_node_merge_strategy rt config = Inr ''full''
                 \<and> generator c = OnePodPipelineGenerator))
   \<and> (\<forall>msg. select_generator rt config \<noteq> Inl (PyException msg))
   \<and> (\<forall>msg. KubeflowClient_init rt auth config project \<noteq> Inl (PyException msg))"
proof -
  have valid: "s = ''none'' \<or> s = ''full''" if "config_node_merge_strategy rt config = Inr s" for s
    using that by (rule config_node_merge_strategy_valid)
  have chosen: "(config_node_merge_strategy rt config = Inr ''none''
                 \<and> generator c = PodPerNodePipelineGenerator)
              \<or> (config_node_merge_strategy rt config = Inr ''full''
                 \<and> generator c = OnePodPipelineGenerator)"
    if "KubeflowClient_init rt auth config project = Inr c" for c
    using KubeflowClient_init_generator [OF that] valid
    by (auto simp: select_generator_eq split: sum.splits if_splits)
  from valid chosen select_generator_eq select_generator_not_PyException
    KubeflowClient_init_not_PyException
  show ?thesis by blast
qed

text \<open>
  Claim C6 at the configuration of the repository's tests, without a strategy and with
  \<open>full\<close>; with the strategy \<open>some\<close> the accessor's \<open>ValueError\<close> is what is raised.
\<close>

theorem C6_generator_selection_witness:
  "KubeflowClient_init exact_runtime
       \<lparr>obtain_id_token = None, obtain_dex_authservice_session = (\<lambda>h. None)\<rparr>
       (PDict [(''host'', PStr ''http://unittest''), (''run_config'', PDict [])])
       ''my-awesome-project''
     = Inr \<lparr>host = PStr ''http://unittest'', client_params = NoParams,
            project_name = ''my-awesome-project'', pipeline_description = PNone,
            generator = PodPerNodePipelineGenerator\<rparr>
   \<and> KubeflowClient_init exact_runtime
       \<lparr>obtain_id_token = None, obtain_dex_authservice_session = (\<lambda>h. None)\<rparr>
       (PDict [(''host'', PStr ''http://unittest''),
               (''run_config'', PDict [(''node_merge_strategy'', PStr ''full'')])])
       ''my-awesome-project''
     = Inr \<lparr>host = PStr ''http://unittest'', client_params = NoParams,
            project_name = ''my-awesome-project'', pipeline_description = PNone,
            generator = OnePodPipelineGenerator\<rparr>
   \<and> KubeflowClient_init exact_runtime
       \<lparr>obtain_id_token = None, obtain_dex_authservice_session = (\<lambda>h. None)\<rparr>
       (PDict [(''host'', PStr ''http://unittest''),
               (''run_config'', PDict [(''node_merge_strategy'', PStr ''some'')])])
       ''my-awesome-project''
     = Inl (ValueError ''Invalid run_config.node_merge_strategy: some'')"
  using
    C6_generator_selection [of exact_runtime
      "PDict [(''host'', PStr ''http://unittest''), (''run_config'', PDict [])]"
      "\<lparr>obtain_id_token = None, obtain_dex_authservice_session = (\<lambda>h. None)\<rparr>"
      "''my-awesome-project''"]
    C6_generator_selection [of exact_runtime
      "PDict [(''host'', PStr ''http://unittest''),
              (''run_config'', PDict [(''node_merge_strategy'', PStr ''full'')])]"
      "\<lparr>obtain_id_token = None, obtain_dex_authservice_session = (\<lambda>h. None)\<rparr>"
      "''my-awesome-project''"]
  by (simp add: KubeflowClient_init_def select_generator_def config_node_merge_strategy_def
      PluginConfig_host_def PluginConfig_run_config_def RunConfig_description_def
      RunConfig_node_merge_strategy_def RunConfig_get_prefix_def Config_get_prefix_def)

lemma ensure_found:
  assumes "get_experiment api (service st) name namespace = (Inr exp, w1)"
  shows "ensure_experiment_exists api name namespace st =
           (Inr (experiment_id exp),
            st\<lparr>service := w1,
               calls := calls st @ [GetExperiment name namespace],
               log := log st @ [''Existing experiment found: '' @ experiment_id exp]\<rparr>)"
  using assms by (simp add: ensure_experiment_exists_def)

lemma ensure_created:
  assumes "get_experiment api (service st) name namespace = (Inl e, w1)"
      and "caught_ValueError e = Some msg"
      and "startswith msg ''No experiment is found''"
      and "create_experiment api w1 name namespace = (Inr exp, w2)"
  shows "ensure_experiment_exists api name namespace st =
           (Inr (experiment_id exp),
            st\<lparr>service := w2,
               calls := calls st @ [GetExperiment name namespace, CreateExperiment name namespace],
               log := log st @ [''New experiment created: '' @ experiment_id exp]\<rparr>)"
  using assms by (simp add: ensure_experiment_exists_def)

lemma ensure_reraised:
  assumes "get_experiment api (service st) name namespace = (Inl e, w1)"
      and "\<forall>msg. caught_ValueError e = Some msg \<longrightarrow> \<not> startswith msg ''No experiment is found''"
  shows "ensure_experiment_exists api name namespace st =
           (Inl e, st\<lparr>service := w1, calls := calls st @ [GetExperiment name namespace]\<rparr>)"
  using assms by (cases "caught_ValueError e") (simp_all add: ensure_experiment_exists_def Let_def)

text \<open>
  Claim C7, as stated, fails for a lookup that raises an exception which is not a
  \<open>ValueError\<close> and whose message starts with \<open>No experiment is found\<close>, here a
  \<open>RuntimeError\<close>: the handler is \<open>except ValueError\<close>, so the exception propagates and
  nothing is created.
\<close>

theorem C7_counterexample:
  "ensure_experiment_exists
      (stub_api (Inl (OtherError [''RuntimeError'', ''Exception'', ''BaseException'', ''object'']
                        ''No experiment is found with name exp.''))
                (Inr \<lparr>experiment_id = ''id-1'', experiment_name = ''exp''\<rparr>))
      ''exp'' None \<lparr>service = 0, calls = [], log = []\<rparr>
     = (Inl (OtherError [''RuntimeError'', ''Exception'', ''BaseException'', ''object'']
               ''No experiment is found with name exp.''),
        \<lparr>service = 0, calls = [GetExperiment ''exp'' None], log = []\<rparr>)
   \<and> startswith ''No experiment is found with name exp.'' ''No experiment is found''"
  by (simp add: ensure_experiment_exists_def stub_api_def startswith_def)

text \<open>
  Claim C7, amended. Let the lookup return \<open>r\<close>.
  \<^item> If \<open>r\<close> is an experiment, its id is returned and \<open>create_experiment\<close> is not called.
  \<^item> If \<open>r\<close> is a \<open>ValueError\<close>, that is an instance of \<open>ValueError\<close> or of one of its
    subclasses, whose message starts with \<open>No experiment is found\<close>, the experiment is
    created and, the creation succeeding, the id of the new experiment is returned.
  \<^item> Any other failure of the lookup, a \<open>ValueError\<close> with another message or an
    exception that is not a \<open>ValueError\<close>, is raised unchanged and \<open>create_experiment\<close> is
    not called.
\<close>

theorem C7_ensure_experiment_exists:
  assumes "get_experiment api (service st) name namespace = (r, w1)"
  shows "(\<forall>exp. r = Inr exp \<longrightarrow>
            ensure_experiment_exists api name namespace st =
              (Inr (experiment_id exp),
               st\<lparr>service := w1,
                  calls := calls st @ [GetExperiment name namespace],
                  log := log st @ [''Existing experiment found: '' @ experiment_id exp]\<rparr>))
       \<and> (\<forall>e msg exp w2.
            r = Inl e \<and> caught_ValueError e = Some msg
            \<and> startswith msg ''No experiment is found''
            \<and> create_experiment api w1 name namespace = (Inr exp, w2) \<longrightarrow>
            ensure_experiment_exists api name namespace st =
              (Inr (experiment_id exp),
               st\<lparr>service := w2,
                  calls := calls st
                    @ [GetExperiment name namespace, CreateExperiment name namespace],
                  log := log st @ [''New experiment created: '' @ experiment_id exp]\<rparr>))
       \<and> (\<forall>e. r = Inl e
              \<and> (\<forall>msg. caught_ValueError e = Some msg
                       \<longrightarrow> \<not> startswith msg ''No experiment is found'')
            \<longrightarrow> ensure_experiment_exists api name namespace st =
              (Inl e, st\<lparr>service := w1, calls := calls st @ [GetExperiment name namespace]\<rparr>))"
  using assms ensure_found [of api st name namespace _ w1]
    ensure_created [of api st name namespace _ w1]
    ensure_reraised [of api st name namespace _ w1]
  by blast

text \<open>
  Claim C7 on a service that knows the experiment, on one that reports it as not found with
  a \<open>ValueError\<close>, on one that reports it with a \<open>UnicodeError\<close>, a subclass of
  \<open>ValueError\<close>, and on one whose lookup fails with another \<open>ValueError\<close>.
\<close>

theorem C7_ensure_experiment_exists_witness:
  "ensure_experiment_exists
      (stub_api (Inr \<lparr>experiment_id = ''id-0'', experiment_name = ''exp''\<rparr>)
                (Inr \<lparr>experiment_id = ''id-1'', experiment_name = ''exp''\<rparr>))
      ''exp'' None \<lparr>service = 0, calls = [], log = []\<rparr>
     = (Inr ''id-0'',
        \<lparr>service = 0, calls = [GetExperiment ''exp'' None],
         log = [''Existing experiment found: id-0'']\<rparr>)
   \<and> ensure_experiment_exists
      (stub_api (Inl (ValueError ''No experiment is found with name exp.''))
                (Inr \<lparr>experiment_id = ''id-1'', experiment_name = ''exp''\<rparr>))
      ''exp'' None \<lparr>service = 0, calls = [], log = []\<rparr>
     = (Inr ''id-1'',
        \<lparr>service = 1, calls = [GetExperiment ''exp'' None, CreateExperiment ''exp'' None],
         log = [''New experiment created: id-1'']\<rparr>)
   \<and> ensure_experiment_exists
      (stub_api (Inl (OtherError [''UnicodeError'', ''ValueError'', ''Exception'',
                                  ''BaseException'', ''object'']
                        ''No experiment is found with name exp.''))
                (Inr \<lparr>experiment_id = ''id-1'', experiment_name = ''exp''\<rparr>))
      ''exp'' None \<lparr>service = 0, calls = [], log = []\<rparr>
     = (Inr ''id-1'',
        \<lparr>service = 1, calls = [GetExperiment ''exp'' None, CreateExperiment ''exp'' None],
         log = [''New experiment created: id-1'']\<rparr>)
   \<and> ensure_experiment_exists
      (stub_api (Inl (ValueError ''Invalid experiment name''))
                (Inr \<lparr>experiment_id = ''id-1'', experiment_name = ''exp''\<rparr>))
      ''exp'' None \<lparr>service = 0, calls = [], log = []\<rparr>
     = (Inl (ValueError ''Invalid experiment name''),
        \<lparr>service = 0, calls = [GetExperiment ''exp'' None], log = []\<rparr>)"
  using
    C7_ensure_experiment_exists [of
      "stub_api (Inr \<lparr>experiment_id = ''id-0'', experiment_name = ''exp''\<rparr>)
                (Inr \<lparr>experiment_id = ''id-1'', experiment_name = ''exp''\<rparr>)"
      "\<lparr>service = 0, calls = [], log = []\<rparr>" "''exp''" None
      "Inr \<lparr>experiment_id = ''id-0'', experiment_name = ''exp''\<rparr>" 0]
    C7_ensure_experiment_exists [of
      "stub_api (Inl (ValueError ''No experiment is found with name exp.''))
                (Inr \<lparr>experiment_id = ''id-1'', experiment_name = ''exp''\<rparr>)"
      "\<lparr>service = 0, calls = [], log = []\<rparr>" "''exp''" None
      "Inl (ValueError ''No experiment is found with name exp.'')" 0]
    C7_ensure_experiment_exists [of
      "stub_api (Inl (OtherError [''UnicodeError'', ''ValueError'', ''Exception'',
                                  ''BaseException'', ''object'']
                        ''No experiment is found with name exp.''))
                (Inr \<lparr>experiment_id = ''id-1'', experiment_name = ''exp''\<rparr>)"
      "\<lparr>service = 0, calls = [], log = []\<rparr>" "''exp''" None
      "Inl (OtherError [''UnicodeError'', ''ValueError'', ''Exception'',
                        ''BaseException'', ''object'']
              ''No experiment is found with name exp.'')" 0]
    C7_ensure_experiment_exists [of
      "stub_api (Inl (ValueError ''Invalid experiment name''))
                (Inr \<lparr>experiment_id = ''id-1'', experiment_name = ''exp''\<rparr>)"
      "\<lparr>service = 0, calls = [], log = []\<rparr>" "''exp''" None
      "Inl (ValueError ''Invalid experiment name'')" 0]
  by (simp add: stub_api_def startswith_def)

section \<open>The retry spec of a produced unit\<close>

lemma normalize_retry_fields:
  assumes "normalize_retry rt m = Inr r"
      and "m \<noteq> []"
  shows "\<exists>n. py_int rt (case map_of m ''num_retries'' of Some v \<Rightarrow> v | None \<Rightarrow> PInt 0) = Inr n
          \<and> map_of r ''num_retries'' = Some (PInt n)
          \<and> (\<forall>v. map_of m ''backoff_factor'' = Some v
                \<longrightarrow> (\<exists>f. py_float rt v = Inr f \<and> map_of r ''backoff_factor'' = Some (PFloat f)))
          \<and> (map_of m ''backoff_factor'' = None \<longrightarrow> map_of r ''backoff_factor'' = Some PNone)
          \<and> (\<forall>v. map_of m ''backoff_duration'' = Some v
                \<longrightarrow> map_of r ''backoff_duration'' = Some (PStr (py_str rt v)))
          \<and> (map_of m ''backoff_duration'' = None
                \<longrightarrow> map_of r ''backoff_duration'' = Some PNone)"
  using assms
  by (auto simp: normalize_retry_def set_num_retries_def set_backoff_factor_def
      set_backoff_duration_def update_conv' split: sum.splits option.splits)

text \<open>
  Claim C8. For every unit whose retry policy is set, the retry step attaches a retry spec
  that holds the resolved policy as \<open>RetryPolicy.get_for\<close> returns it, together with the
  fixed trigger \<open>on failure\<close>, which depends neither on the unit nor on the configuration.
  In terms of the merge \<open>m\<close> of the \<open>__default__\<close> entry and the unit's entry, the spec
  carries \<open>num_retries\<close> as \<open>int\<close> of the value in \<open>m\<close> (of \<open>0\<close> when \<open>m\<close> has none),
  \<open>backoff_factor\<close> as \<open>float\<close> and \<open>backoff_duration\<close> as \<open>str\<close> of the value in
  \<open>m\<close>, and \<open>None\<close> for either when \<open>m\<close> has none.
\<close>

theorem C8_retry_spec_attached:
  assumes "RunConfig_retry_policy run_config = Inr (PDict blk)"
      and "get_or_default (PDict blk) ''__default__'' (PDict []) = Inr (PDict a)"
      and "get_or_default (PDict blk) (unit_name u) (PDict []) = Inr (PDict b)"
      and "RetryPolicy_is_set_for rt (PDict blk) (unit_name u) = Inr True"
  shows "\<exists>r n.
           attach_retry rt run_config u =
             Inr (u\<lparr>unit_retry := Some \<lparr>retry_fields = r, retry_on = ''on failure''\<rparr>\<rparr>)
         \<and> RetryPolicy_get_for rt (PDict blk) (unit_name u) = Inr r
         \<and> py_int rt (case map_of (dict_merge a b) ''num_retries'' of
                         Some v \<Rightarrow> v | None \<Rightarrow> PInt 0) = Inr n
         \<and> map_of r ''num_retries'' = Some (PInt n)
         \<and> (\<forall>v. map_of (dict_merge a b) ''backoff_factor'' = Some v
               \<longrightarrow> (\<exists>f. py_float rt v = Inr f
                       \<and> map_of r ''backoff_factor'' = Some (PFloat f)))
         \<and> (map_of (dict_merge a b) ''backoff_factor'' = None
               \<longrightarrow> map_of r ''backoff_factor'' = Some PNone)
         \<and> (\<forall>v. map_of (dict_merge a b) ''backoff_duration'' = Some v
               \<longrightarrow> map_of r ''backoff_duration'' = Some (PStr (py_str rt v)))
         \<and> (map_of (dict_merge a b) ''backoff_duration'' = None
               \<longrightarrow> map_of r ''backoff_duration'' = Some PNone)"
proof -
  let ?m = "dict_merge a b"
  have eq: "RetryPolicy_get_for rt (PDict blk) (unit_name u) = normalize_retry rt ?m"
    using assms(2,3) by (rule RetryPolicy_get_for_merge)
  obtain r where r: "normalize_retry rt ?m = Inr r" and ne: "r \<noteq> []"
    using assms(4) by (auto simp: RetryPolicy_is_set_for_def eq split: sum.splits)
  have m: "?m \<noteq> []"
    using normalize_retry_nonempty [OF r] ne by simp
  have attached: "attach_retry rt run_config u =
      Inr (u\<lparr>unit_retry := Some \<lparr>retry_fields = r, retry_on = ''on failure''\<rparr>\<rparr>)"
    using assms(1,4) r by (simp add: attach_retry_def eq fixed_trigger_def)
  from normalize_retry_fields [OF r m] attached r eq show ?thesis
    by auto
qed

text \<open>
  Claim C8 at the configuration of \<open>test_should_add_retry_policy\<close>: the unit named
  \<open>pipeline\<close> takes the default policy, \<open>4\<close>, \<open>60s\<close> and \<open>2.0\<close>, and the unit named
  \<open>node1\<close> its own.
\<close>

theorem C8_retry_spec_attached_witness:
  "attach_retry exact_runtime
      (PDict [(''retry_policy'',
         PDict [(''__default__'',
                  PDict [(''num_retries'', PInt 4), (''backoff_duration'', PStr ''60s''),
                         (''backoff_factor'', PInt 2)]),
                (''node1'',
                  PDict [(''num_retries'', PInt 100), (''backoff_duration'', PStr ''5m''),
                         (''backoff_factor'', PInt 1)])])])
      \<lparr>unit_name = ''pipeline'', unit_retry = None\<rparr>
     = Inr \<lparr>unit_name = ''pipeline'',
            unit_retry = Some \<lparr>retry_fields =
                                 [(''num_retries'', PInt 4), (''backoff_duration'', PStr ''60s''),
                                  (''backoff_factor'', PFloat 2)],
                               retry_on = ''on failure''\<rparr>\<rparr>
   \<and> attach_retry exact_runtime
      (PDict [(''retry_policy'',
         PDict [(''__default__'',
                  PDict [(''num_retries'', PInt 4), (''backoff_duration'', PStr ''60s''),
                         (''backoff_factor'', PInt 2)]),
                (''node1'',
                  PDict [(''num_retries'', PInt 100), (''backoff_duration'', PStr ''5m''),
                         (''backoff_factor'', PInt 1)])])])
      \<lparr>unit_name = ''node1'', unit_retry = None\<rparr>
     = Inr \<lparr>unit_name = ''node1'',
            unit_retry = Some \<lparr>retry_fields =
                                 [(''num_retries'', PInt 100), (''backoff_duration'', PStr ''5m''),
                                  (''backoff_factor'', PFloat 1)],
                               retry_on = ''on failure''\<rparr>\<rparr>"
  using
    C8_retry_spec_attached [of
      "PDict [(''retry_policy'',
         PDict [(''__default__'',
                  PDict [(''num_retries'', PInt 4), (''backoff_duration'', PStr ''60s''),
                         (''backoff_factor'', PInt 2)]),
                (''node1'',
                  PDict [(''num_retries'', PInt 100), (''backoff_duration'', PStr ''5m''),
                         (''backoff_factor'', PInt 1)])])]"
      "[(''__default__'',
                  PDict [(''num_retries'', PInt 4), (''backoff_duration'', PStr ''60s''),
                         (''backoff_factor'', PInt 2)]),
                (''node1'',
                  PDict [(''num_retries'', PInt 100), (''backoff_duration'', PStr ''5m''),
                         (''backoff_factor'', PInt 1)])]"
      "[(''num_retries'', PInt 4), (''backoff_duration'', PStr ''60s''),
        (''backoff_factor'', PInt 2)]"
      "\<lparr>unit_name = ''pipeline'', unit_retry = None\<rparr>"
      "[]" exact_runtime]
    C8_retry_spec_attached [of
      "PDict [(''retry_policy'',
         PDict [(''__default__'',
                  PDict [(''num_retries'', PInt 4), (''backoff_duration'', PStr ''60s''),
                         (''backoff_factor'', PInt 2)]),
                (''node1'',
                  PDict [(''num_retries'', PInt 100), (''backoff_duration'', PStr ''5m''),
                         (''backoff_factor'', PInt 1)])])]"
      "[(''__default__'',
                  PDict [(''num_retries'', PInt 4), (''backoff_duration'', PStr ''60s''),
                         (''backoff_factor'', PInt 2)]),
                (''node1'',
                  PDict [(''num_retries'', PInt 100), (''backoff_duration'', PStr ''5m''),
                         (''backoff_factor'', PInt 1)])]"
      "[(''num_retries'', PInt 4), (''backoff_duration'', PStr ''60s''),
        (''backoff_factor'', PInt 2)]"
      "\<lparr>unit_name = ''node1'', unit_retry = None\<rparr>"
      "[(''num_retries'', PInt 100), (''backoff_duration'', PStr ''5m''),
        (''backoff_factor'', PInt 1)]" exact_runtime]
  by (simp add: RunConfig_retry_policy_def RetryPolicy_is_set_for_def
      RetryPolicy_get_for_def normalize_retry_def set_num_retries_def set_backoff_factor_def
      set_backoff_duration_def dict_merge_def exact_runtime_def)

end
